theory Spec2Isabelle
  imports Complex_Main "HOL-Library.Word" "HOL-Library.Char_ord" "HOL-Library.List_Lexorder"
begin

section \<open>Characters, streams and the standard library the program calls\<close>

text \<open>
  The program reads a \<^verbatim>\<open>std::istream\<close> one character at a time.  The stream is modelled by
  the list of characters not yet read.  \<^verbatim>\<open>peek()\<close> and \<^verbatim>\<open>get()\<close> return an \<^verbatim>\<open>int\<close>:
  the next character, or the end-of-stream value \<^verbatim>\<open>EOF\<close>, here \<open>None\<close>.  At the end
  of the stream both keep returning \<^verbatim>\<open>EOF\<close>.
\<close>

definition peek :: "string \<Rightarrow> char option" where
  "peek input = (case input of [] \<Rightarrow> None | c # _ \<Rightarrow> Some c)"

definition get :: "string \<Rightarrow> char option \<times> string" where
  "get input = (case input of [] \<Rightarrow> (None, []) | c # rest \<Rightarrow> (Some c, rest))"

text \<open>
  \<^verbatim>\<open>char c = input.get();\<close> narrows the \<^verbatim>\<open>int\<close> to a \<^verbatim>\<open>char\<close>: \<^verbatim>\<open>EOF\<close> is \<open>-1\<close> and becomes
  the character with all eight bits set.
\<close>

definition to_char :: "char option \<Rightarrow> char" where
  "to_char i = (case i of None \<Rightarrow> CHR 0xFF | Some c \<Rightarrow> c)"

text \<open>
  The classification functions of \<^verbatim>\<open><cctype>\<close> in the default "C" locale.  \<^verbatim>\<open>isspace\<close> holds
  of six characters: space, \<^verbatim>\<open>\t\<close>, \<^verbatim>\<open>\n\<close>, \<^verbatim>\<open>\v\<close>, \<^verbatim>\<open>\f\<close> and \<^verbatim>\<open>\r\<close>.  None of them holds
  of \<^verbatim>\<open>EOF\<close> or of a character outside ASCII.
\<close>

definition isspace :: "char \<Rightarrow> bool" where
  "isspace c = (c = CHR 0x20 \<or> c = CHR 0x09 \<or> c = CHR 0x0A \<or> c = CHR 0x0B \<or> c = CHR 0x0C \<or> c = CHR 0x0D)"

definition isdigit :: "char \<Rightarrow> bool" where
  "isdigit c = (CHR ''0'' \<le> c \<and> c \<le> CHR ''9'')"

definition isalpha :: "char \<Rightarrow> bool" where
  "isalpha c = ((CHR ''A'' \<le> c \<and> c \<le> CHR ''Z'') \<or> (CHR ''a'' \<le> c \<and> c \<le> CHR ''z''))"

text \<open>\<^verbatim>\<open>tolower\<close> on the \<^verbatim>\<open>int\<close> that \<^verbatim>\<open>peek()\<close> returns.\<close>

definition tolower_int :: "char option \<Rightarrow> char option" where
  "tolower_int i = (case i of None \<Rightarrow> None
     | Some c \<Rightarrow> Some (if CHR ''A'' \<le> c \<and> c \<le> CHR ''Z'' then char_of (of_char c + (32::nat)) else c))"

subsection \<open>Decimal text of integers\<close>

definition digit_char :: "int \<Rightarrow> char" where
  "digit_char d = char_of (48 + d)"

definition digit_val :: "char \<Rightarrow> int" where
  "digit_val c = of_char c - 48"

function show_digits :: "int \<Rightarrow> string" where
  "show_digits n = (if n < 10 then [digit_char n] else show_digits (n div 10) @ [digit_char (n mod 10)])"
  by pat_completeness auto
termination
  by (relation "measure nat") auto

declare show_digits.simps [simp del]

text \<open>\<^verbatim>\<open>output << value\<close> for an \<^verbatim>\<open>int\<close>: decimal digits, with a minus sign when negative.\<close>

definition show_int :: "int \<Rightarrow> string" where
  "show_int i = (if i < 0 then CHR ''-'' # show_digits (- i) else show_digits i)"

definition digits_value :: "string \<Rightarrow> int" where
  "digits_value ds = foldl (\<lambda>acc c. 10 * acc + digit_val c) 0 ds"

text \<open>
  \<^verbatim>\<open>num_iss >> num\<close> for an \<^verbatim>\<open>int\<close> (the \<^verbatim>\<open>num_get\<close> facet, C++11 and later): leading
  white space is skipped, then an optional sign and the decimal digits are read.  With no digit the
  conversion fails and stores zero; a value out of range stores the nearest bound.  The failure
  bits it sets belong to the local string stream, which the program never tests.
\<close>

definition INT_MAX :: int where
  "INT_MAX = 2147483647"

definition INT_MIN :: int where
  "INT_MIN = - 2147483648"

definition extract_int :: "string \<Rightarrow> 32 word" where
  "extract_int field =
     (let s = dropWhile isspace field;
          neg = (peek s = Some CHR ''-'');
          s = (if peek s = Some CHR ''-'' \<or> peek s = Some CHR ''+'' then tl s else s);
          ds = takeWhile isdigit s;
          v = (if neg then - digits_value ds else digits_value ds)
      in if ds = [] then 0
         else if v > INT_MAX then word_of_int INT_MAX
         else if v < INT_MIN then word_of_int INT_MIN
         else word_of_int v)"

subsection \<open>Floating point\<close>

text \<open>
  A \<^verbatim>\<open>double\<close> is an IEEE binary64 value: a finite number (a rational; the two zeros are
  kept apart), an infinity or a NaN.  The type also holds rationals that no binary64 value
  has; what is proved for every value of the type holds for the doubles among them.
\<close>

datatype double = Fin rat | NegZero | PosInf | NegInf | NaN

definition double_canon :: "double \<Rightarrow> double" where
  "double_canon x = (case x of NegZero \<Rightarrow> Fin 0 | _ \<Rightarrow> x)"

text \<open>\<^verbatim>\<open>==\<close> on doubles: a NaN equals nothing, the two zeros are equal.\<close>

definition double_eq :: "double \<Rightarrow> double \<Rightarrow> bool" where
  "double_eq x y = (x \<noteq> NaN \<and> y \<noteq> NaN \<and> double_canon x = double_canon y)"

definition double_less :: "double \<Rightarrow> double \<Rightarrow> bool" where
  "double_less x y =
     (case (double_canon x, double_canon y) of
        (NaN, _) \<Rightarrow> False
      | (_, NaN) \<Rightarrow> False
      | (Fin p, Fin q) \<Rightarrow> p < q
      | (Fin p, PosInf) \<Rightarrow> True
      | (NegInf, Fin q) \<Rightarrow> True
      | (NegInf, PosInf) \<Rightarrow> True
      | _ \<Rightarrow> False)"

definition double_floor :: "double \<Rightarrow> double" where
  "double_floor x = (case x of Fin q \<Rightarrow> Fin (of_int \<lfloor>q\<rfloor>) | _ \<Rightarrow> x)"

definition double_abs :: "double \<Rightarrow> double" where
  "double_abs x = (case x of Fin q \<Rightarrow> Fin \<bar>q\<bar> | NegZero \<Rightarrow> Fin 0 | NegInf \<Rightarrow> PosInf | _ \<Rightarrow> x)"

text \<open>The implicit conversion of an \<^verbatim>\<open>int\<close> to \<^verbatim>\<open>double\<close>: exact for every 32-bit integer.\<close>

definition double_of_int :: "32 word \<Rightarrow> double" where
  "double_of_int i = Fin (of_int (sint i))"

definition pow10 :: "int \<Rightarrow> rat" where
  "pow10 k = (if 0 \<le> k then 10 ^ nat k else 1 / 10 ^ nat (- k))"

definition pow2 :: "int \<Rightarrow> rat" where
  "pow2 k = (if 0 \<le> k then 2 ^ nat k else 1 / 2 ^ nat (- k))"

function bit_length :: "int \<Rightarrow> nat" where
  "bit_length n = (if n < 2 then 1 else Suc (bit_length (n div 2)))"
  by pat_completeness auto
termination
  by (relation "measure nat") auto

declare bit_length.simps [simp del]

text \<open>Rounding to the nearest integer, ties to even: the default IEEE rounding.\<close>

definition round_half_even :: "rat \<Rightarrow> int" where
  "round_half_even r =
     (let f = \<lfloor>r\<rfloor>; d = r - of_int f
      in if d < 1 / 2 then f else if 1 / 2 < d then f + 1 else if even f then f else f + 1)"

text \<open>For \<open>q > 0\<close>: the integer \<open>X\<close> with \<open>10 ^ X \<le> q < 10 ^ (X + 1)\<close>, and the same in base 2.\<close>

definition decimal_exponent :: "rat \<Rightarrow> int" where
  "decimal_exponent q =
     (let (a, b) = quotient_of q;
          k = int (length (show_digits a)) - int (length (show_digits b))
      in if pow10 k \<le> q then k else k - 1)"

definition binary_exponent :: "rat \<Rightarrow> int" where
  "binary_exponent q =
     (let (a, b) = quotient_of q;
          k = int (bit_length a) - int (bit_length b)
      in if pow2 k \<le> q then k else k - 1)"

definition pad_left :: "nat \<Rightarrow> string \<Rightarrow> string" where
  "pad_left n s = replicate (n - length s) CHR ''0'' @ s"

definition strip_zeros :: "string \<Rightarrow> string" where
  "strip_zeros s = rev (dropWhile (\<lambda>c. c = CHR ''0'') (rev s))"

text \<open>
  \<^verbatim>\<open>output << value\<close> for a \<^verbatim>\<open>double\<close> on a stream with default flags is \<^verbatim>\<open>printf("%g")\<close>: six
  significant digits; fixed notation when the decimal exponent \<open>X\<close> of the rounded value has
  \<open>-4 \<le> X < 6\<close>, else scientific notation with an exponent of at least two digits; trailing
  zeros of the fraction, and a decimal point with no fraction, are dropped.
\<close>

definition format_g :: "rat \<Rightarrow> string" where
  "format_g q =
     (let X0 = decimal_exponent q;
          D0 = round_half_even (q / pow10 (X0 - 5));
          X = (if D0 = 1000000 then X0 + 1 else X0);
          D = (if D0 = 1000000 then 100000 else D0)
      in if - 4 \<le> X \<and> X < 6 then
           (let np = nat (5 - X);
                frac = strip_zeros (pad_left np (if np = 0 then [] else show_digits (D mod 10 ^ np)))
            in show_digits (D div 10 ^ np) @ (if frac = [] then [] else CHR ''.'' # frac))
         else
           (let frac = strip_zeros (pad_left 5 (show_digits (D mod 100000)))
            in show_digits (D div 100000) @ (if frac = [] then [] else CHR ''.'' # frac)
               @ [CHR ''e'', if X < 0 then CHR ''-'' else CHR ''+'']
               @ pad_left 2 (show_digits \<bar>X\<bar>)))"

definition show_double :: "double \<Rightarrow> string" where
  "show_double x =
     (case x of
        NaN \<Rightarrow> ''nan''
      | PosInf \<Rightarrow> ''inf''
      | NegInf \<Rightarrow> ''-inf''
      | NegZero \<Rightarrow> ''-0''
      | Fin q \<Rightarrow> if q = 0 then ''0'' else if q < 0 then CHR ''-'' # format_g (- q) else format_g q)"

text \<open>The nearest binary64 value of a rational: 53 significant bits, exponents from \<open>-1022\<close>.\<close>

definition DBL_MAX :: rat where
  "DBL_MAX = (2 ^ 53 - 1) * 2 ^ 971"

definition round_binary64 :: "bool \<Rightarrow> rat \<Rightarrow> double" where
  "round_binary64 neg q =
     (if q = 0 then (if neg then NegZero else Fin 0)
      else
        (let e = max (binary_exponent q) (- 1022);
             ulp = pow2 (e - 52);
             r = of_int (round_half_even (q / ulp)) * ulp
         in if DBL_MAX < r then Fin (if neg then - DBL_MAX else DBL_MAX)
            else if r = 0 then (if neg then NegZero else Fin 0)
            else Fin (if neg then - r else r)))"

text \<open>
  \<^verbatim>\<open>num_iss >> num\<close> for a \<^verbatim>\<open>double\<close>: the field is a sign, digits, a point, digits, an
  exponent mark, a sign and digits, each optional.  The conversion (\<^verbatim>\<open>strtod\<close>) must convert the
  whole field: it needs a digit in the mantissa and, after an exponent mark, a digit in the
  exponent.  When it does not, zero is stored; a value too large stores the largest double.
\<close>

definition extract_double :: "string \<Rightarrow> double" where
  "extract_double field =
     (let s = dropWhile isspace field;
          neg = (peek s = Some CHR ''-'');
          s = (if peek s = Some CHR ''-'' \<or> peek s = Some CHR ''+'' then tl s else s);
          ip = takeWhile isdigit s;
          s = dropWhile isdigit s;
          point = (peek s = Some CHR ''.'');
          fp = (if point then takeWhile isdigit (tl s) else []);
          s = (if point then dropWhile isdigit (tl s) else s);
          mark = (peek s = Some CHR ''e'' \<or> peek s = Some CHR ''E'');
          s = (if mark then tl s else s);
          eneg = (mark \<and> peek s = Some CHR ''-'');
          s = (if mark \<and> (peek s = Some CHR ''-'' \<or> peek s = Some CHR ''+'') then tl s else s);
          ed = (if mark then takeWhile isdigit s else []);
          s = (if mark then dropWhile isdigit s else s);
          ex = (if eneg then - digits_value ed else digits_value ed) - int (length fp)
      in if (ip = [] \<and> fp = []) \<or> (mark \<and> ed = []) \<or> s \<noteq> [] then Fin 0
         else round_binary64 neg (of_int (digits_value (ip @ fp)) * pow10 ex))"

section \<open>The value model (json.h, json.cpp lines 12--87)\<close>

text \<open>
  \<^verbatim>\<open>Node\<close> wraps \<^verbatim>\<open>std::variant<std::nullptr_t, Array, Dict, bool, int, double, std::string>\<close>;
  the constructors below stand in the order of the alternatives.  \<^verbatim>\<open>Array\<close> is a
  \<^verbatim>\<open>std::vector<Node>\<close>.  \<^verbatim>\<open>Dict\<close> is a \<^verbatim>\<open>std::map<std::string, Node>\<close>: its entries are kept
  here as the list the map's iterator walks through, which \<open>emplace\<close> below keeps in
  increasing key order.
\<close>

datatype Node =
    Node_null
  | Node_Array "Node list"
  | Node_Dict "(string \<times> Node) list"
  | Node_bool bool
  | Node_int "32 word"
  | Node_double double
  | Node_string string

type_synonym Array = "Node list"

type_synonym Dict = "(string \<times> Node) list"

datatype error = ParsingError string | logic_error string | bad_variant_access

text \<open>\<^verbatim>\<open>Node() = default\<close>: a variant's default constructor holds its first alternative.\<close>

definition Node_default :: Node where
  "Node_default = Node_null"

text \<open>\<^verbatim>\<open>value_.index()\<close>: the position of the active alternative.\<close>

fun index :: "Node \<Rightarrow> nat" where
  "index Node_null = 0"
| "index (Node_Array _) = 1"
| "index (Node_Dict _) = 2"
| "index (Node_bool _) = 3"
| "index (Node_int _) = 4"
| "index (Node_double _) = 5"
| "index (Node_string _) = 6"

text \<open>\<^verbatim>\<open>holds_alternative<T>(value_)\<close> for each of the seven alternatives.\<close>

definition IsNull :: "Node \<Rightarrow> bool" where
  "IsNull n = (index n = 0)"

definition IsArray :: "Node \<Rightarrow> bool" where
  "IsArray n = (index n = 1)"

definition IsMap :: "Node \<Rightarrow> bool" where
  "IsMap n = (index n = 2)"

definition IsBool :: "Node \<Rightarrow> bool" where
  "IsBool n = (index n = 3)"

definition IsInt :: "Node \<Rightarrow> bool" where
  "IsInt n = (index n = 4)"

definition IsDouble :: "Node \<Rightarrow> bool" where
  "IsDouble n = (index n = 5 \<or> IsInt n)"

definition IsPureDouble :: "Node \<Rightarrow> bool" where
  "IsPureDouble n = (index n = 5)"

definition IsString :: "Node \<Rightarrow> bool" where
  "IsString n = (index n = 6)"

text \<open>\<^verbatim>\<open>std::get<T>(value_)\<close> throws \<^verbatim>\<open>bad_variant_access\<close> when another alternative is active.\<close>

definition get_Array :: "Node \<Rightarrow> error + Array" where
  "get_Array n = (case n of Node_Array a \<Rightarrow> Inr a | _ \<Rightarrow> Inl bad_variant_access)"

definition get_Dict :: "Node \<Rightarrow> error + Dict" where
  "get_Dict n = (case n of Node_Dict d \<Rightarrow> Inr d | _ \<Rightarrow> Inl bad_variant_access)"

definition get_bool :: "Node \<Rightarrow> error + bool" where
  "get_bool n = (case n of Node_bool b \<Rightarrow> Inr b | _ \<Rightarrow> Inl bad_variant_access)"

definition get_int :: "Node \<Rightarrow> error + 32 word" where
  "get_int n = (case n of Node_int i \<Rightarrow> Inr i | _ \<Rightarrow> Inl bad_variant_access)"

definition get_double :: "Node \<Rightarrow> error + double" where
  "get_double n = (case n of Node_double d \<Rightarrow> Inr d | _ \<Rightarrow> Inl bad_variant_access)"

definition get_string :: "Node \<Rightarrow> error + string" where
  "get_string n = (case n of Node_string s \<Rightarrow> Inr s | _ \<Rightarrow> Inl bad_variant_access)"

definition AsArray :: "Node \<Rightarrow> error + Array" where
  "AsArray n = (if \<not> IsArray n then Inl (logic_error ''Not an array'') else get_Array n)"

definition AsMap :: "Node \<Rightarrow> error + Dict" where
  "AsMap n = (if \<not> IsMap n then Inl (logic_error ''Not a map'') else get_Dict n)"

definition AsBool :: "Node \<Rightarrow> error + bool" where
  "AsBool n = (if \<not> IsBool n then Inl (logic_error ''Not a bool'') else get_bool n)"

definition AsInt :: "Node \<Rightarrow> error + 32 word" where
  "AsInt n = (if \<not> IsInt n then Inl (logic_error ''Not an int'') else get_int n)"

definition AsDouble :: "Node \<Rightarrow> error + double" where
  "AsDouble n =
     (if IsInt n then map_sum id double_of_int (get_int n)
      else if \<not> IsDouble n then Inl (logic_error ''Not a double'')
      else get_double n)"

definition AsString :: "Node \<Rightarrow> error + string" where
  "AsString n = (if \<not> IsString n then Inl (logic_error ''Not a string'') else get_string n)"

text \<open>
  \<^verbatim>\<open>Node::operator==\<close> is \<^verbatim>\<open>value_ == rhs.value_\<close>.  Two variants are equal when their
  indices are equal and the payloads of that alternative are equal under the payload type's
  own \<^verbatim>\<open>==\<close>.  Two vectors, and two maps, are equal when their sizes are equal and their
  elements are pairwise equal in iteration order; a map's element is a key and a Node.
\<close>

fun Node_eq :: "Node \<Rightarrow> Node \<Rightarrow> bool"
  and vector_eq :: "Node list \<Rightarrow> Node list \<Rightarrow> bool"
  and map_eq :: "(string \<times> Node) list \<Rightarrow> (string \<times> Node) list \<Rightarrow> bool" where
  "Node_eq Node_null rhs = (case rhs of Node_null \<Rightarrow> True | _ \<Rightarrow> False)"
| "Node_eq (Node_Array a) rhs = (case rhs of Node_Array b \<Rightarrow> vector_eq a b | _ \<Rightarrow> False)"
| "Node_eq (Node_Dict a) rhs = (case rhs of Node_Dict b \<Rightarrow> map_eq a b | _ \<Rightarrow> False)"
| "Node_eq (Node_bool a) rhs = (case rhs of Node_bool b \<Rightarrow> a = b | _ \<Rightarrow> False)"
| "Node_eq (Node_int a) rhs = (case rhs of Node_int b \<Rightarrow> a = b | _ \<Rightarrow> False)"
| "Node_eq (Node_double a) rhs = (case rhs of Node_double b \<Rightarrow> double_eq a b | _ \<Rightarrow> False)"
| "Node_eq (Node_string a) rhs = (case rhs of Node_string b \<Rightarrow> a = b | _ \<Rightarrow> False)"
| "vector_eq [] ys = (ys = [])"
| "vector_eq (x # xs) ys = (case ys of [] \<Rightarrow> False | y # ys' \<Rightarrow> Node_eq x y \<and> vector_eq xs ys')"
| "map_eq [] ys = (ys = [])"
| "map_eq ((k, v) # xs) ys =
     (case ys of [] \<Rightarrow> False | (k', v') # ys' \<Rightarrow> k = k' \<and> Node_eq v v' \<and> map_eq xs ys')"

definition Node_neq :: "Node \<Rightarrow> Node \<Rightarrow> bool" where
  "Node_neq a rhs = (\<not> Node_eq a rhs)"

text \<open>
  \<^verbatim>\<open>result.emplace(key, node)\<close> on a \<^verbatim>\<open>std::map\<close>: the entry is inserted at its place in
  the key order (\<^verbatim>\<open>std::less<std::string>\<close>: lexicographic, characters compared as unsigned
  bytes) unless the map already has an entry with that key, in which case the map is left as
  it is.
\<close>

fun emplace :: "string \<Rightarrow> Node \<Rightarrow> Dict \<Rightarrow> Dict" where
  "emplace key node [] = [(key, node)]"
| "emplace key node ((k, v) # rest) =
     (if key < k then (key, node) # (k, v) # rest
      else if k < key then (k, v) # emplace key node rest
      else (k, v) # rest)"

datatype Document = Document Node

fun GetRoot :: "Document \<Rightarrow> Node" where
  "GetRoot (Document r) = r"

section \<open>The printer (json.cpp lines 294--370, 378--380)\<close>

text \<open>
  The output stream is modelled by the text written to it: every printing function returns
  what it writes, and writing one thing after another is \<open>@\<close>.
\<close>

fun PrintString_char :: "char \<Rightarrow> string" where
  "PrintString_char c =
     (if c = CHR 0x0A then [CHR 0x5C, CHR ''n'']
      else if c = CHR 0x0D then [CHR 0x5C, CHR ''r'']
      else if c = CHR 0x09 then [CHR 0x5C, CHR ''t'']
      else if c = CHR 0x22 then [CHR 0x5C, CHR 0x22]
      else if c = CHR 0x5C then [CHR 0x5C, CHR 0x5C]
      else [c])"

fun PrintString_loop :: "string \<Rightarrow> string" where
  "PrintString_loop [] = []"
| "PrintString_loop (c # rest) = PrintString_char c @ PrintString_loop rest"

definition PrintString :: "string \<Rightarrow> string" where
  "PrintString value = CHR 0x22 # PrintString_loop value @ [CHR 0x22]"

text \<open>
  The two range-for loops carry the flag \<^verbatim>\<open>first\<close>; \<open>PrintArray_loop\<close> and
  \<open>PrintDict_loop\<close> are the loops, over the elements not yet printed.
\<close>

function (sequential) PrintNode :: "Node \<Rightarrow> nat \<Rightarrow> string"
  and PrintArray :: "Array \<Rightarrow> nat \<Rightarrow> string"
  and PrintArray_loop :: "bool \<Rightarrow> Array \<Rightarrow> nat \<Rightarrow> string"
  and PrintDict :: "Dict \<Rightarrow> nat \<Rightarrow> string"
  and PrintDict_loop :: "bool \<Rightarrow> Dict \<Rightarrow> nat \<Rightarrow> string" where
  "PrintNode Node_null indent = ''null''"
| "PrintNode (Node_bool b) indent = (if b then ''true'' else ''false'')"
| "PrintNode (Node_int i) indent = show_int (sint i)"
| "PrintNode (Node_double v) indent =
     show_double v
     @ (if double_eq (double_floor v) v \<and> double_less (double_abs v) (Fin 10000000000)
        then ''.0'' else [])"
| "PrintNode (Node_string s) indent = PrintString s"
| "PrintNode (Node_Array a) indent = PrintArray a indent"
| "PrintNode (Node_Dict d) indent = PrintDict d indent"
| "PrintArray array indent =
     CHR ''['' # PrintArray_loop True array indent
     @ (if array \<noteq> [] then CHR 0x0A # replicate indent CHR 0x20 else [])
     @ '']''"
| "PrintArray_loop first [] indent = []"
| "PrintArray_loop first (node # rest) indent =
     (if \<not> first then '','' else [])
     @ CHR 0x0A # replicate (indent + 2) CHR 0x20
     @ PrintNode node (indent + 2)
     @ PrintArray_loop False rest indent"
| "PrintDict dict indent =
     CHR ''{'' # PrintDict_loop True dict indent
     @ (if dict \<noteq> [] then CHR 0x0A # replicate indent CHR 0x20 else [])
     @ ''}''"
| "PrintDict_loop first [] indent = []"
| "PrintDict_loop first ((key, node) # rest) indent =
     (if \<not> first then '','' else [])
     @ CHR 0x0A # replicate (indent + 2) CHR 0x20
     @ PrintString key
     @ '': ''
     @ PrintNode node (indent + 2)
     @ PrintDict_loop False rest indent"
  by pat_completeness auto
termination
  by (relation "measure (case_sum
        (case_sum (\<lambda>(n, i). 2 * size n) (\<lambda>(a, i). 2 * size (Node_Array a) - 1))
        (case_sum (\<lambda>(f, a, i). 2 * size (Node_Array a) - 2)
          (case_sum (\<lambda>(d, i). 2 * size (Node_Dict d) - 1)
                    (\<lambda>(f, d, i). 2 * size (Node_Dict d) - 2))))") auto

definition Print :: "Document \<Rightarrow> string" where
  "Print doc = PrintNode (GetRoot doc) 0"

section \<open>The parser (json.cpp lines 89--292, 374--376)\<close>

text \<open>
  A parsing function takes the characters not yet read and returns \<open>None\<close> when it does
  not return at all, \<open>Some (Inl e)\<close> when it throws \<open>e\<close>, and \<open>Some (Inr (v, rest))\<close>
  when it returns \<open>v\<close> and leaves \<open>rest\<close> in the stream.
\<close>

text \<open>\<^verbatim>\<open>while (isspace(input.peek())) input.get();\<close>\<close>

fun SkipWhitespace :: "string \<Rightarrow> string" where
  "SkipWhitespace [] = []"
| "SkipWhitespace (c # rest) = (if isspace c then SkipWhitespace rest else c # rest)"

text \<open>The lambda \<^verbatim>\<open>read_char\<close> of \<^verbatim>\<open>LoadNumber\<close>, on the pair of \<^verbatim>\<open>num_str\<close> and the stream.\<close>

definition read_char :: "string \<times> string \<Rightarrow> string \<times> string" where
  "read_char st = (let (num_str, input) = st; (i, input) = get input in (num_str @ [to_char i], input))"

text \<open>\<^verbatim>\<open>while (isdigit(input.peek())) read_char();\<close>\<close>

fun read_digits :: "string \<Rightarrow> string \<Rightarrow> string \<times> string" where
  "read_digits num_str [] = (num_str, [])"
| "read_digits num_str (c # rest) =
     (if isdigit c then read_digits (num_str @ [c]) rest else (num_str, c # rest))"

definition LoadNumber :: "string \<Rightarrow> Node \<times> string" where
  "LoadNumber input =
     (let (num_str, input) =
            (if peek input = Some CHR ''-'' then read_char ([], input) else ([], input));
          (num_str, input) = read_digits num_str input;
          (is_double, num_str, input) =
            (if peek input = Some CHR ''.'' then
               (let (num_str, input) = read_char (num_str, input);
                    (num_str, input) = read_digits num_str input
                in (True, num_str, input))
             else (False, num_str, input));
          (is_double, num_str, input) =
            (if tolower_int (peek input) = Some CHR ''e'' then
               (let (num_str, input) = read_char (num_str, input);
                    (num_str, input) =
                      (if peek input = Some CHR ''+'' \<or> peek input = Some CHR ''-''
                       then read_char (num_str, input) else (num_str, input));
                    (num_str, input) = read_digits num_str input
                in (True, num_str, input))
             else (is_double, num_str, input))
      in if is_double then (Node_double (extract_double num_str), input)
         else (Node_int (extract_int num_str), input))"

text \<open>
  The loop of \<^verbatim>\<open>LoadStringToken\<close>, with its variables \<^verbatim>\<open>line\<close> and \<^verbatim>\<open>escape\<close>.  No branch
  tests for the end of the stream: there \<^verbatim>\<open>get()\<close> returns \<^verbatim>\<open>EOF\<close> and \<open>c\<close> is the
  character \<open>0xFF\<close>.
\<close>

partial_function (option) LoadStringToken_loop ::
    "string \<Rightarrow> bool \<Rightarrow> string \<Rightarrow> (error + string \<times> string) option" where
  "LoadStringToken_loop line escape input =
     (let (i, input) = get input; c = to_char i
      in if c = CHR 0x5C \<and> \<not> escape then LoadStringToken_loop line True input
         else if c = CHR 0x22 \<and> \<not> escape then Some (Inr (line, input))
         else if escape then
           (if c = CHR ''n'' then LoadStringToken_loop (line @ [CHR 0x0A]) False input
            else if c = CHR ''r'' then LoadStringToken_loop (line @ [CHR 0x0D]) False input
            else if c = CHR ''t'' then LoadStringToken_loop (line @ [CHR 0x09]) False input
            else if c = CHR 0x22 then LoadStringToken_loop (line @ [CHR 0x22]) False input
            else if c = CHR 0x5C then LoadStringToken_loop (line @ [CHR 0x5C]) False input
            else Some (Inl (ParsingError ''Invalid escape sequence'')))
         else LoadStringToken_loop (line @ [c]) False input)"

definition LoadStringToken :: "string \<Rightarrow> (error + string \<times> string) option" where
  "LoadStringToken input = LoadStringToken_loop [] False input"

definition LoadString :: "string \<Rightarrow> (error + Node \<times> string) option" where
  "LoadString input =
     (let (i, input) = get input
      in if i \<noteq> Some CHR 0x22 then Some (Inl (ParsingError (''String should start with '' @ [CHR 0x22])))
         else Option.bind (LoadStringToken input)
                (\<lambda>r. case r of Inl e \<Rightarrow> Some (Inl e)
                        | Inr (line, input) \<Rightarrow> Some (Inr (Node_string line, input))))"

text \<open>\<^verbatim>\<open>while (isalpha(input.peek())) token += static_cast<char>(input.get());\<close>\<close>

fun read_alpha :: "string \<Rightarrow> string \<Rightarrow> string \<times> string" where
  "read_alpha token [] = (token, [])"
| "read_alpha token (c # rest) =
     (if isalpha c then read_alpha (token @ [c]) rest else (token, c # rest))"

definition LoadBoolOrNull :: "string \<Rightarrow> error + Node \<times> string" where
  "LoadBoolOrNull input =
     (let (token, input) = read_alpha [] input
      in if token = ''true'' then Inr (Node_bool True, input)
         else if token = ''false'' then Inr (Node_bool False, input)
         else if token = ''null'' then Inr (Node_null, input)
         else Inl (ParsingError (''Unknown token: '' @ token)))"

text \<open>
  \<^verbatim>\<open>LoadNode\<close>, \<^verbatim>\<open>LoadArray\<close> and \<^verbatim>\<open>LoadDict\<close> call each other.  They are one recursive
  function here, whose first argument says which of them runs: one of the three functions from
  its first line, or the \<^verbatim>\<open>while (true)\<close> loop of \<^verbatim>\<open>LoadArray\<close> or of \<^verbatim>\<open>LoadDict\<close> with the
  \<^verbatim>\<open>result\<close> built so far.
\<close>

datatype entry =
    LoadNode_entry
  | LoadArray_entry
  | LoadArray_loop Array
  | LoadDict_entry
  | LoadDict_loop Dict

partial_function (option) Load_rec :: "entry \<Rightarrow> string \<Rightarrow> (error + Node \<times> string) option" where
  "Load_rec entry input =
     (case entry of
        LoadNode_entry \<Rightarrow>
          (let input = SkipWhitespace input; c = to_char (peek input)
           in if c = CHR ''['' then Load_rec LoadArray_entry input
              else if c = CHR ''{'' then Load_rec LoadDict_entry input
              else if c = CHR 0x22 then LoadString input
              else if isdigit c \<or> c = CHR ''-'' then Some (Inr (LoadNumber input))
              else if isalpha c then Some (LoadBoolOrNull input)
              else Some (Inl (ParsingError (''Unexpected character: '' @ [c]))))
      | LoadArray_entry \<Rightarrow>
          (let (i, input) = get input
           in if i \<noteq> Some CHR ''['' then Some (Inl (ParsingError ''Array should start with [''))
              else
                (let input = SkipWhitespace input
                 in if peek input = Some CHR '']''
                    then (let (i, input) = get input in Some (Inr (Node_Array [], input)))
                    else Load_rec (LoadArray_loop []) input))
      | LoadArray_loop result \<Rightarrow>
          (let input = SkipWhitespace input
           in Option.bind (Load_rec LoadNode_entry input)
                (\<lambda>r. case r of Inl e \<Rightarrow> Some (Inl e)
                   | Inr (node, input) \<Rightarrow>
                       (let result = result @ [node];
                            input = SkipWhitespace input;
                            (i, input) = get input;
                            c = to_char i
                        in if c = CHR '']'' then Some (Inr (Node_Array result, input))
                           else if c \<noteq> CHR '','' then
                             Some (Inl (ParsingError ''Expected ',' or ']' in array''))
                           else Load_rec (LoadArray_loop result) input)))
      | LoadDict_entry \<Rightarrow>
          (let (i, input) = get input
           in if i \<noteq> Some CHR ''{'' then Some (Inl (ParsingError ''Dict should start with {''))
              else
                (let input = SkipWhitespace input
                 in if peek input = Some CHR ''}''
                    then (let (i, input) = get input in Some (Inr (Node_Dict [], input)))
                    else Load_rec (LoadDict_loop []) input))
      | LoadDict_loop result \<Rightarrow>
          (let input = SkipWhitespace input;
               (i, input) = get input
           in if i \<noteq> Some CHR 0x22 then
                Some (Inl (ParsingError (''Dict key should start with '' @ [CHR 0x22])))
              else
                Option.bind (LoadStringToken input)
                  (\<lambda>r. case r of Inl e \<Rightarrow> Some (Inl e)
                     | Inr (key, input) \<Rightarrow>
                         (let input = SkipWhitespace input;
                              (i, input) = get input
                          in if i \<noteq> Some CHR '':'' then
                               Some (Inl (ParsingError ''Expected ':' after dict key''))
                             else
                               (let input = SkipWhitespace input
                                in Option.bind (Load_rec LoadNode_entry input)
                                     (\<lambda>r. case r of Inl e \<Rightarrow> Some (Inl e)
                                        | Inr (node, input) \<Rightarrow>
                                            (let result = emplace key node result;
                                                 input = SkipWhitespace input;
                                                 (i, input) = get input;
                                                 c = to_char i
                                             in if c = CHR ''}'' then Some (Inr (Node_Dict result, input))
                                                else if c \<noteq> CHR '','' then
                                                  Some (Inl (ParsingError ''Expected ',' or '}' in dict''))
                                                else Load_rec (LoadDict_loop result) input)))))))"

definition LoadNode :: "string \<Rightarrow> (error + Node \<times> string) option" where
  "LoadNode input = Load_rec LoadNode_entry input"

definition LoadArray :: "string \<Rightarrow> (error + Node \<times> string) option" where
  "LoadArray input = Load_rec LoadArray_entry input"

definition LoadDict :: "string \<Rightarrow> (error + Node \<times> string) option" where
  "LoadDict input = Load_rec LoadDict_entry input"

text \<open>\<^verbatim>\<open>Load\<close> returns \<^verbatim>\<open>Document{LoadNode(input)}\<close>; what follows the first value stays unread.\<close>

definition Load :: "string \<Rightarrow> (error + Document \<times> string) option" where
  "Load input =
     Option.bind (LoadNode input)
       (\<lambda>r. case r of Inl e \<Rightarrow> Some (Inl e)
               | Inr (node, input) \<Rightarrow> Some (Inr (Document node, input)))"

section \<open>Accessors and the default value\<close>

lemma index_cases:
  "index n = 0 \<longleftrightarrow> n = Node_null"
  "index n = 1 \<longleftrightarrow> (\<exists>a. n = Node_Array a)"
  "index n = 2 \<longleftrightarrow> (\<exists>d. n = Node_Dict d)"
  "index n = 3 \<longleftrightarrow> (\<exists>b. n = Node_bool b)"
  "index n = 4 \<longleftrightarrow> (\<exists>i. n = Node_int i)"
  "index n = 5 \<longleftrightarrow> (\<exists>x. n = Node_double x)"
  "index n = 6 \<longleftrightarrow> (\<exists>s. n = Node_string s)"
  by (cases n; simp)+

text \<open>
  Claim C10.  The Node made by the zero-argument constructor holds the Null alternative:
  \<^verbatim>\<open>IsNull()\<close> is true of it, and it is equal, under \<^verbatim>\<open>operator==\<close>, to the Node
  made from \<^verbatim>\<open>nullptr\<close>.
\<close>

theorem Node_default_IsNull:
  "IsNull Node_default \<and> Node_eq Node_default Node_null \<and> \<not> Node_neq Node_default Node_null"
  by (simp add: Node_default_def IsNull_def Node_neq_def)

text \<open>
  Claim C6.  On a Node holding an \<^verbatim>\<open>int\<close>, \<^verbatim>\<open>AsDouble()\<close> returns the integer converted to
  \<^verbatim>\<open>double\<close>, the number itself.  \<^verbatim>\<open>AsDouble()\<close> throws exactly when the Node holds
  neither an \<^verbatim>\<open>int\<close> nor a \<^verbatim>\<open>double\<close>, and what it throws then is the
  \<^verbatim>\<open>logic_error\<close> "Not a double".
\<close>

theorem AsDouble_widens:
  "AsDouble (Node_int i) = Inr (Fin (of_int (sint i)))
   \<and> ((\<exists>e. AsDouble n = Inl e) \<longleftrightarrow> (\<not> IsInt n \<and> \<not> IsPureDouble n))
   \<and> ((AsDouble n = Inl (logic_error ''Not a double'')) \<longleftrightarrow> (\<not> IsInt n \<and> \<not> IsPureDouble n))"
  by (cases n)
     (simp_all add: AsDouble_def IsInt_def IsDouble_def IsPureDouble_def get_int_def
        get_double_def double_of_int_def)

theorem AsDouble_widens_witness:
  "AsDouble (Node_int 7) = Inr (Fin 7)
   \<and> AsDouble (Node_double (Fin (1 / 2))) = Inr (Fin (1 / 2))
   \<and> AsDouble (Node_string ''7'') = Inl (logic_error ''Not a double'')"
proof -
  have a: "AsDouble (Node_int 7) = Inr (Fin 7)"
    using AsDouble_widens [of 7 Node_null] by simp
  have b: "AsDouble (Node_double (Fin (1 / 2))) = Inr (Fin (1 / 2))"
    by (simp add: AsDouble_def IsInt_def IsDouble_def get_double_def)
  have c: "AsDouble (Node_string ''7'') = Inl (logic_error ''Not a double'')"
    using AsDouble_widens [of 0 "Node_string ''7''"] by (simp add: IsInt_def IsPureDouble_def)
  from a b c show ?thesis by simp
qed

end
